theory Spec2Isabelle
  imports Complex_Main
begin

section \<open>Values and errors\<close>

text \<open>
  The model follows \<^verbatim>\<open>src/app.py\<close>, lines 132-156 and 259-428: the route
  \<^verbatim>\<open>generate_emotion_image\<close> and the functions it calls.

  Python's floats are modelled by exact rationals (\<^typ>\<open>rat\<close>): \<^verbatim>\<open>0.5\<close> is \<open>1/2\<close>,
  \<^verbatim>\<open>0.8\<close> is \<open>4/5\<close>, and \<^verbatim>\<open>/\<close> is exact division. Rounding of IEEE doubles is
  outside the model. Python's strings are modelled by \<^typ>\<open>string\<close>, each \<^typ>\<open>char\<close> read
  as a code point below 256.
\<close>

datatype error = AttributeError | ZeroDivisionError | BadRequest

text \<open>What \<^verbatim>\<open>request.get_json()\<close> can return: a decoded JSON value.\<close>

datatype json =
    JNull
  | JBool bool
  | JNum rat
  | JStr string
  | JArr "json list"
  | JObj "(string \<times> json) list"

text \<open>
  The dict \<^verbatim>\<open>emotional_cues\<close> has the six keys below throughout, in this order.
  The accumulators are Python ints before normalisation and floats after it.
\<close>

record emotional_cues =
  positive :: rat
  negative :: rat
  energetic :: rat
  calm :: rat
  chaotic :: rat
  focused :: rat

section \<open>String operations used by the extractor\<close>

text \<open>
  \<^verbatim>\<open>str.lower()\<close> on code points below 256: the letters A-Z and the Latin-1 capitals
  192-222 (except the multiplication sign 215) move up by 32, everything else stays.
\<close>

definition lower_char :: "char \<Rightarrow> char" where
  "lower_char c =
     (let n = (of_char c :: nat)
      in if (65 \<le> n \<and> n \<le> 90) \<or> (192 \<le> n \<and> n \<le> 222 \<and> n \<noteq> 215)
         then char_of (n + 32) else c)"

definition lower :: "string \<Rightarrow> string" where
  "lower s = map lower_char s"

text \<open>\<^verbatim>\<open>text.startswith(term)\<close>.\<close>

definition startswith :: "string \<Rightarrow> string \<Rightarrow> bool" where
  "startswith text term = (take (length term) text = term)"

text \<open>\<^verbatim>\<open>term in text\<close>: \<open>term\<close> occurs in \<open>text\<close> as a contiguous substring.\<close>

fun str_in :: "string \<Rightarrow> string \<Rightarrow> bool" where
  "str_in term [] = (term = [])"
| "str_in term (c # cs) = (startswith (c # cs) term \<or> str_in term cs)"

text \<open>
  \<^verbatim>\<open>text.count(term)\<close>: the number of non-overlapping occurrences, scanning from the
  left; after a match the scan resumes behind it. For the empty term Python returns
  \<open>len(text) + 1\<close>.
\<close>

fun str_count :: "string \<Rightarrow> string \<Rightarrow> nat" where
  "str_count [] term = (if term = [] then 1 else 0)"
| "str_count (c # cs) term =
     (if term = [] then length (c # cs) + 1
      else if startswith (c # cs) term then 1 + str_count (drop (length term - 1) cs) term
      else str_count cs term)"

section \<open>extract_emotional_cues\<close>

definition positive_terms :: "string list" where
  "positive_terms = [''positive'', ''happy'', ''joy'', ''content'', ''satisfied'', ''growth'',
     ''improve'', ''good'', ''well'', ''better'']"

definition negative_terms :: "string list" where
  "negative_terms = [''negative'', ''sad'', ''challenge'', ''difficult'', ''blocker'', ''fatigue'',
     ''stress'', ''anxious'', ''overwhelm'', ''hard'']"

definition energetic_terms :: "string list" where
  "energetic_terms = [''energy'', ''active'', ''dynamic'', ''vibrant'', ''excite'', ''motivate'',
     ''drive'']"

definition calm_terms :: "string list" where
  "calm_terms = [''calm'', ''peace'', ''serene'', ''tranquil'', ''relax'', ''balance'',
     ''centered'']"

text \<open>
  One of the four loops
  \<^verbatim>\<open>for term in terms: if term in text: cues[k] += text.count(term)\<close>,
  with the accumulator passed along.
\<close>

fun count_terms :: "string list \<Rightarrow> string \<Rightarrow> nat \<Rightarrow> nat" where
  "count_terms [] text acc = acc"
| "count_terms (term # terms) text acc =
     count_terms terms text (if str_in term text then acc + str_count text term else acc)"

text \<open>True division \<^verbatim>\<open>a / b\<close>, which raises on a zero divisor.\<close>

definition truediv :: "rat \<Rightarrow> rat \<Rightarrow> error + rat" where
  "truediv a b = (if b = 0 then Inl ZeroDivisionError else Inr (a / b))"

definition bind :: "error + 'a \<Rightarrow> ('a \<Rightarrow> error + 'b) \<Rightarrow> error + 'b" where
  "bind m f = (case m of Inl e \<Rightarrow> Inl e | Inr x \<Rightarrow> f x)"

text \<open>The raw counts, before normalisation (lines 261-296).\<close>

definition raw_cues :: "string \<Rightarrow> emotional_cues" where
  "raw_cues text =
     \<lparr>positive = of_nat (count_terms positive_terms text 0),
      negative = of_nat (count_terms negative_terms text 0),
      energetic = of_nat (count_terms energetic_terms text 0),
      calm = of_nat (count_terms calm_terms text 0),
      chaotic = 0,
      focused = 0\<rparr>"

text \<open>\<^verbatim>\<open>sum(emotional_cues.values())\<close>.\<close>

definition cue_sum :: "emotional_cues \<Rightarrow> rat" where
  "cue_sum c = positive c + negative c + energetic c + calm c + chaotic c + focused c"

text \<open>
  The loop \<^verbatim>\<open>for key in emotional_cues: emotional_cues[key] = emotional_cues[key] / total\<close>,
  in the dict's key order; the first failing division ends it.
\<close>

definition divide_all :: "emotional_cues \<Rightarrow> rat \<Rightarrow> error + emotional_cues" where
  "divide_all c tot =
     bind (truediv (positive c) tot) (\<lambda>p.
     bind (truediv (negative c) tot) (\<lambda>n.
     bind (truediv (energetic c) tot) (\<lambda>e.
     bind (truediv (calm c) tot) (\<lambda>k.
     bind (truediv (chaotic c) tot) (\<lambda>x.
     bind (truediv (focused c) tot) (\<lambda>f.
       Inr \<lparr>positive = p, negative = n, energetic = e, calm = k, chaotic = x, focused = f\<rparr>))))))"

text \<open>
  The argument is whatever the request carried under \<^verbatim>\<open>analysis\<close>; only a string has
  the method \<^verbatim>\<open>lower\<close>.
\<close>

definition extract_emotional_cues :: "json \<Rightarrow> error + emotional_cues" where
  "extract_emotional_cues analysis =
     (case analysis of
        JStr s \<Rightarrow>
          (let text = lower s;
               cues = raw_cues text;
               tot = cue_sum cues
           in if tot > 0 then divide_all cues tot else Inr cues)
      | _ \<Rightarrow> Inl AttributeError)"

section \<open>calculate_base_color\<close>

text \<open>\<^verbatim>\<open>int(x)\<close> on a float: truncation towards zero.\<close>

definition py_int :: "rat \<Rightarrow> int" where
  "py_int x = (if 0 \<le> x then \<lfloor>x\<rfloor> else \<lceil>x\<rceil>)"

definition calculate_base_color :: "emotional_cues \<Rightarrow> int \<times> int \<times> int" where
  "calculate_base_color cues =
     (let r = py_int (255 * (positive cues + energetic cues * (1 / 2)));
          g = py_int (255 * (positive cues * (4 / 5) + calm cues * (1 / 2)));
          b = py_int (255 * (negative cues + calm cues));
          r = min 255 (max 0 r);
          g = min 255 (max 0 g);
          b = min 255 (max 0 b)
      in (r, g, b))"

section \<open>The random source\<close>

text \<open>
  The module \<^verbatim>\<open>random\<close> is modelled by an arbitrary infinite sequence of raw draws
  and the position of the next one. \<^verbatim>\<open>random.randint(a, b)\<close> reduces the next draw into
  \<open>[a, b]\<close>, \<^verbatim>\<open>random.choice(xs)\<close> into the indices of \<open>xs\<close>; every call in the
  source has \<open>a \<le> b\<close> and a non-empty \<open>xs\<close>, so neither raises.
\<close>

type_synonym rand_source = "nat \<Rightarrow> nat"

definition randint :: "rand_source \<Rightarrow> nat \<Rightarrow> int \<Rightarrow> int \<Rightarrow> int \<times> nat" where
  "randint src p a b = (a + int (src p mod nat (b - a + 1)), Suc p)"

definition choice :: "rand_source \<Rightarrow> nat \<Rightarrow> 'a list \<Rightarrow> 'a \<times> nat" where
  "choice src p xs = (xs ! (src p mod length xs), Suc p)"

text \<open>
  \<^verbatim>\<open>for _ in range(n): body\<close>, where the body consumes random draws and produces one
  item; a negative count is \<open>0\<close> iterations (the caller applies \<^const>\<open>nat\<close>).
\<close>

fun for_range :: "nat \<Rightarrow> (nat \<Rightarrow> 'a \<times> nat) \<Rightarrow> nat \<Rightarrow> 'a list \<times> nat" where
  "for_range 0 body p = ([], p)"
| "for_range (Suc n) body p =
     (let (a, p1) = body p;
          (as, p2) = for_range n body p1
      in (a # as, p2))"

section \<open>Images and drawing\<close>

text \<open>
  Pillow is not part of the repository. An image is modelled by what was done to it:
  its size, its background colour and the sequence of drawing calls and filters.
\<close>

type_synonym rgb = "int \<times> int \<times> int"
type_synonym rgba = "int \<times> int \<times> int \<times> int"

datatype image_filter = GaussianBlur nat | SMOOTH

datatype image_op =
    DrawEllipse "int list" rgba
  | DrawRectangle "int list" rgba
  | DrawPolygon "(int \<times> int) list" rgba
  | DrawLine "(int \<times> int) list" rgba int
  | DrawEllipseOutline "int list" rgba int
  | Filtered image_filter

record image =
  img_size :: "int \<times> int"
  background :: rgb
  ops :: "image_op list"

text \<open>
  Images are objects: a variable holds a reference into the heap. \<^verbatim>\<open>Image.new\<close>
  allocates, drawing changes the object in place, and \<^verbatim>\<open>image.filter(f)\<close> leaves its
  receiver alone and returns a new image.
\<close>

type_synonym heap = "image list"

definition alloc :: "heap \<Rightarrow> image \<Rightarrow> nat \<times> heap" where
  "alloc h img = (length h, h @ [img])"

definition image_new :: "heap \<Rightarrow> int \<times> int \<Rightarrow> rgb \<Rightarrow> nat \<times> heap" where
  "image_new h sz colour = alloc h \<lparr>img_size = sz, background = colour, ops = []\<rparr>"

definition image_draw :: "heap \<Rightarrow> nat \<Rightarrow> image_op list \<Rightarrow> heap" where
  "image_draw h r calls = h[r := (h ! r)\<lparr>ops := ops (h ! r) @ calls\<rparr>]"

definition image_filter :: "heap \<Rightarrow> nat \<Rightarrow> image_filter \<Rightarrow> nat \<times> heap" where
  "image_filter h r f = alloc h ((h ! r)\<lparr>ops := ops (h ! r) @ [Filtered f]\<rparr>)"

section \<open>draw_emotional_shapes\<close>

datatype shape_type = Circle | Rectangle | Polygon | Chaos | Focused

text \<open>One pass of \<^verbatim>\<open>for i in range(5): draw.line(...)\<close>.\<close>

definition chaos_line :: "int \<Rightarrow> int \<Rightarrow> rgba \<Rightarrow> rand_source \<Rightarrow> nat \<Rightarrow> image_op \<times> nat" where
  "chaos_line x y color src p =
     (let (dx, p1) = randint src p (- 50) 50;
          (dy, p2) = randint src p1 (- 50) 50;
          (w, p3) = randint src p2 1 5
      in (DrawLine [(x, y), (x + dx, y + dy)] color w, p3))"

text \<open>The chain \<^verbatim>\<open>if shape_type == 'circle': ... elif ...\<close> (lines 378-394).\<close>

definition draw_shape ::
  "shape_type \<Rightarrow> int \<Rightarrow> int \<Rightarrow> int \<Rightarrow> rgba \<Rightarrow> rand_source \<Rightarrow> nat \<Rightarrow> image_op list \<times> nat" where
  "draw_shape shape_type x y sz color src p =
     (case shape_type of
        Circle \<Rightarrow> ([DrawEllipse [x, y, x + sz, y + sz] color], p)
      | Rectangle \<Rightarrow> ([DrawRectangle [x, y, x + sz, y + sz] color], p)
      | Polygon \<Rightarrow> ([DrawPolygon [(x, y), (x + sz, y), (x + sz div 2, y + sz)] color], p)
      | Chaos \<Rightarrow> for_range 5 (chaos_line x y color src) p
      | Focused \<Rightarrow>
          (map (\<lambda>i. DrawEllipseOutline
                  [x - i * 10, y - i * 10, x + sz + i * 10, y + sz + i * 10] color 2)
             [0, 1, 2], p))"

text \<open>
  The body of the loop over \<^verbatim>\<open>range(num_shapes)\<close> (lines 357-394). It yields the
  shape type chosen and the calls made on \<^verbatim>\<open>draw\<close>.
\<close>

definition draw_iteration ::
  "int \<Rightarrow> int \<Rightarrow> emotional_cues \<Rightarrow> rgb \<Rightarrow> rand_source \<Rightarrow> nat
     \<Rightarrow> (shape_type \<times> image_op list) \<times> nat" where
  "draw_iteration width height cues base_color src p =
     (let (shape_type, p0) =
            (if chaotic cues > 3 / 10 then (Chaos, p)
             else if focused cues > 3 / 10 then (Focused, p)
             else choice src p [Circle, Rectangle, Polygon]);
          (x, p1) = randint src p0 0 width;
          (y, p2) = randint src p1 0 height;
          (sz, p3) = randint src p2 10 100;
          color_variation = 50;
          (dr, p4) = randint src p3 (- color_variation) color_variation;
          r = min 255 (max 0 (fst base_color + dr));
          (dg, p5) = randint src p4 (- color_variation) color_variation;
          g = min 255 (max 0 (fst (snd base_color) + dg));
          (db, p6) = randint src p5 (- color_variation) color_variation;
          b = min 255 (max 0 (snd (snd base_color) + db));
          (a, p7) = randint src p6 100 200;
          color = (r, g, b, a);
          (calls, p8) = draw_shape shape_type x y sz color src p7
      in ((shape_type, calls), p8))"

text \<open>
  The result lists the shapes in the order drawn; the calls of all of them, in that
  order, are what the \<^verbatim>\<open>draw\<close> object receives.
\<close>

definition draw_emotional_shapes ::
  "int \<Rightarrow> int \<Rightarrow> emotional_cues \<Rightarrow> rgb \<Rightarrow> rand_source \<Rightarrow> nat
     \<Rightarrow> (shape_type \<times> image_op list) list \<times> nat" where
  "draw_emotional_shapes width height cues base_color src p =
     (let num_shapes = py_int (10 + 40 * energetic cues)
      in for_range (nat num_shapes) (draw_iteration width height cues base_color src) p)"

section \<open>apply_emotional_filters\<close>

text \<open>
  Lines 397-403. Each \<^verbatim>\<open>image = image.filter(...)\<close> rebinds the local name to a new
  object (\<open>img1\<close>, \<open>img2\<close>). The function has no \<^verbatim>\<open>return\<close>: the caller gets the heap back and nothing
  else.
\<close>

definition apply_emotional_filters :: "heap \<Rightarrow> nat \<Rightarrow> emotional_cues \<Rightarrow> heap" where
  "apply_emotional_filters h img cues =
     (let (img1, h1) =
            (if chaotic cues > 4 / 10 then image_filter h img (GaussianBlur 1) else (img, h));
          (img2, h2) =
            (if calm cues > 6 / 10 then image_filter h1 img1 SMOOTH else (img1, h1))
      in h2)"

section \<open>generate_abstract_visualization and generate_fallback_image\<close>

text \<open>
  \<open>png_base64\<close> stands for \<^verbatim>\<open>image.save(buffered, format="PNG")\<close> followed by
  \<^verbatim>\<open>base64.b64encode(...).decode()\<close>; it is a parameter.
\<close>

definition data_uri :: "string \<Rightarrow> string" where
  "data_uri img_str = ''data:image/png;base64,'' @ img_str"

definition generate_abstract_visualization ::
  "(image \<Rightarrow> string) \<Rightarrow> emotional_cues \<Rightarrow> rand_source \<Rightarrow> nat \<Rightarrow> string \<times> nat" where
  "generate_abstract_visualization png_base64 cues src p =
     (let width = 400; height = 400;
          (img, h0) = image_new [] (width, height) (0, 0, 0);
          base_color = calculate_base_color cues;
          (shapes, p1) = draw_emotional_shapes width height cues base_color src p;
          h1 = image_draw h0 img (concat (map snd shapes));
          h2 = apply_emotional_filters h1 img cues;
          img_str = png_base64 (h2 ! img)
      in (data_uri img_str, p1))"




section \<open>The route generate_emotion_image\<close>






section \<open>Notions used in the statements\<close>

text \<open>The marker terms of the four lists, and whether one of them occurs in a text.\<close>

definition marker_terms :: "string list" where
  "marker_terms = positive_terms @ negative_terms @ energetic_terms @ calm_terms"

definition has_marker :: "string \<Rightarrow> bool" where
  "has_marker text = list_ex (\<lambda>term. str_in term text) marker_terms"

definition zero_cues :: emotional_cues where
  "zero_cues = \<lparr>positive = 0, negative = 0, energetic = 0, calm = 0, chaotic = 0, focused = 0\<rparr>"



text \<open>The three shape types of the random choice; kinds of call.\<close>

definition basic_shape :: "shape_type \<Rightarrow> bool" where
  "basic_shape t = (t = Circle \<or> t = Rectangle \<or> t = Polygon)"

fun is_line :: "image_op \<Rightarrow> bool" where
  "is_line (DrawLine pts color w) = True"
| "is_line _ = False"

fun is_filtered :: "image_op \<Rightarrow> bool" where
  "is_filtered (Filtered f) = True"
| "is_filtered _ = False"




text \<open>Concrete inputs: the text of the end-to-end example and the vector it yields.\<close>

definition example_text :: string where
  "example_text = ''You show positive growth and good energy, with some stress and difficulty.''"

definition example_cues :: emotional_cues where
  "example_cues = \<lparr>positive = 1 / 2, negative = 1 / 3, energetic = 1 / 6, calm = 0,
     chaotic = 0, focused = 0\<rparr>"

text \<open>Vectors with \<open>chaotic\<close> set, as only a caller other than the extractor can supply.\<close>

definition chaos_cues :: emotional_cues where
  "chaos_cues = \<lparr>positive = 0, negative = 0, energetic = 0, calm = 0,
     chaotic = 1 / 2, focused = 1 / 2\<rparr>"

definition blur_cues :: emotional_cues where
  "blur_cues = \<lparr>positive = 0, negative = 0, energetic = 0, calm = 0, chaotic = 1, focused = 0\<rparr>"

text \<open>A random source, an encoder that tells a filtered image from an unfiltered one, and
  a request whose \<^verbatim>\<open>analysis\<close> is a number.\<close>

definition src0 :: rand_source where
  "src0 i = 7 * i + 3"

definition png0 :: "image \<Rightarrow> string" where
  "png0 img = (if list_ex is_filtered (ops img) then ''filtered'' else ''plain'')"


section \<open>Lemmas on strings, counting and loops\<close>




lemma str_count_pos: "str_in tm tx \<Longrightarrow> 0 < str_count tx tm"
  by (induction tx) auto

lemma count_terms_mono: "acc \<le> count_terms terms tx acc"
proof (induction terms arbitrary: acc)
  case Nil
  show ?case by simp
next
  case (Cons t ts)
  have "acc \<le> (if str_in t tx then acc + str_count tx t else acc)" by simp
  also have "\<dots> \<le> count_terms ts tx (if str_in t tx then acc + str_count tx t else acc)"
    by (rule Cons.IH)
  finally show ?case by simp
qed

lemma count_terms_none:
  "\<not> list_ex (\<lambda>tm. str_in tm tx) terms \<Longrightarrow> count_terms terms tx acc = acc"
  by (induction terms arbitrary: acc) auto

lemma count_terms_some:
  "list_ex (\<lambda>tm. str_in tm tx) terms \<Longrightarrow> acc < count_terms terms tx acc"
proof (induction terms arbitrary: acc)
  case Nil
  then show ?case by simp
next
  case (Cons t ts)
  show ?case
  proof (cases "str_in t tx")
    case True
    then have "acc < acc + str_count tx t" using str_count_pos by simp
    also have "\<dots> \<le> count_terms ts tx (acc + str_count tx t)" by (rule count_terms_mono)
    finally show ?thesis using True by simp
  next
    case False
    then show ?thesis using Cons by simp
  qed
qed

lemma for_range_Suc:
  "for_range (Suc n) body p =
     (fst (body p) # fst (for_range n body (snd (body p))),
      snd (for_range n body (snd (body p))))"
  by (simp add: case_prod_beta)

lemma for_range_length: "length (fst (for_range n body p)) = n"
  by (induction n arbitrary: p) (simp_all add: for_range_Suc del: for_range.simps(2))

lemma for_range_all:
  "(\<And>q. P (fst (body q))) \<Longrightarrow> list_all P (fst (for_range n body p))"
  by (induction n arbitrary: p) (simp_all add: for_range_Suc del: for_range.simps(2))


lemma nat_py_int: "nat (py_int x) = nat \<lfloor>x\<rfloor>"
proof (cases "0 \<le> x")
  case True
  then show ?thesis by (simp add: py_int_def)
next
  case False
  then have "\<lceil>x\<rceil> \<le> 0" "\<lfloor>x\<rfloor> \<le> 0" by (simp_all add: ceiling_le_iff floor_le_iff)
  then show ?thesis using False by (simp add: py_int_def)
qed

section \<open>The extractor\<close>

lemma cue_sum_raw:
  "cue_sum (raw_cues tx) = of_nat (count_terms positive_terms tx 0 + count_terms negative_terms tx 0
      + count_terms energetic_terms tx 0 + count_terms calm_terms tx 0)"
  by (simp add: cue_sum_def raw_cues_def)

lemma cue_sum_raw_zero: "\<not> has_marker tx \<Longrightarrow> raw_cues tx = zero_cues"
  by (simp add: has_marker_def marker_terms_def raw_cues_def zero_cues_def count_terms_none)

lemma cue_sum_raw_pos: "has_marker tx \<Longrightarrow> 0 < cue_sum (raw_cues tx)"
proof -
  assume "has_marker tx"
  then consider "list_ex (\<lambda>tm. str_in tm tx) positive_terms"
    | "list_ex (\<lambda>tm. str_in tm tx) negative_terms"
    | "list_ex (\<lambda>tm. str_in tm tx) energetic_terms"
    | "list_ex (\<lambda>tm. str_in tm tx) calm_terms"
    by (auto simp: has_marker_def marker_terms_def)
  then have "0 < count_terms positive_terms tx 0 + count_terms negative_terms tx 0
      + count_terms energetic_terms tx 0 + count_terms calm_terms tx 0"
    by cases (use count_terms_some[of tx _ 0] in \<open>auto simp: add_pos_nonneg\<close>)
  then show ?thesis unfolding cue_sum_raw by (simp only: of_nat_0_less_iff)
qed

lemma divide_all_ok:
  "tot \<noteq> 0 \<Longrightarrow> divide_all c tot =
     Inr \<lparr>positive = positive c / tot, negative = negative c / tot, energetic = energetic c / tot,
          calm = calm c / tot, chaotic = chaotic c / tot, focused = focused c / tot\<rparr>"
  by (simp add: divide_all_def truediv_def bind_def)

lemma extract_marker_free:
  "\<not> has_marker (lower tx) \<Longrightarrow> extract_emotional_cues (JStr tx) = Inr zero_cues"
  by (simp add: extract_emotional_cues_def Let_def cue_sum_raw_zero)
    (simp add: zero_cues_def cue_sum_def)

lemma extract_marked:
  assumes "has_marker (lower tx)"
  shows "extract_emotional_cues (JStr tx) =
     Inr \<lparr>positive = positive (raw_cues (lower tx)) / cue_sum (raw_cues (lower tx)),
          negative = negative (raw_cues (lower tx)) / cue_sum (raw_cues (lower tx)),
          energetic = energetic (raw_cues (lower tx)) / cue_sum (raw_cues (lower tx)),
          calm = calm (raw_cues (lower tx)) / cue_sum (raw_cues (lower tx)),
          chaotic = 0, focused = 0\<rparr>"
proof -
  have pos: "0 < cue_sum (raw_cues (lower tx))" using assms by (rule cue_sum_raw_pos)
  then have "divide_all (raw_cues (lower tx)) (cue_sum (raw_cues (lower tx))) =
     Inr \<lparr>positive = positive (raw_cues (lower tx)) / cue_sum (raw_cues (lower tx)),
          negative = negative (raw_cues (lower tx)) / cue_sum (raw_cues (lower tx)),
          energetic = energetic (raw_cues (lower tx)) / cue_sum (raw_cues (lower tx)),
          calm = calm (raw_cues (lower tx)) / cue_sum (raw_cues (lower tx)),
          chaotic = 0, focused = 0\<rparr>"
    by (simp add: divide_all_ok) (simp add: raw_cues_def)
  then show ?thesis using pos by (simp add: extract_emotional_cues_def Let_def)
qed

lemma extract_total: "\<exists>c. extract_emotional_cues (JStr tx) = Inr c"
  by (cases "has_marker (lower tx)") (simp_all add: extract_marked extract_marker_free)

lemma extract_chaotic_focused:
  "extract_emotional_cues (JStr tx) = Inr c \<Longrightarrow> chaotic c = 0 \<and> focused c = 0"
  by (cases "has_marker (lower tx)") (auto simp: extract_marked extract_marker_free zero_cues_def)






text \<open>
  C8. For every input text in which no marker term of the four lists occurs (the empty
  string included) the extractor returns the vector of six zeros; and for every text it
  returns a vector, so the division by the total never raises: it is guarded by
  \<^verbatim>\<open>total > 0\<close>.
\<close>

theorem extract_emotional_cues_all_zero:
  "(\<not> has_marker (lower tx) \<longrightarrow> extract_emotional_cues (JStr tx) = Inr zero_cues) \<and>
   (\<exists>c. extract_emotional_cues (JStr tx) = Inr c)"
proof (cases "has_marker (lower tx)")
  case True
  then show ?thesis by (simp add: extract_marked)
next
  case False
  then show ?thesis by (simp add: extract_marker_free)
qed

theorem extract_emotional_cues_all_zero_witness:
  "\<not> has_marker (lower []) \<and> extract_emotional_cues (JStr []) = Inr zero_cues \<and>
   \<not> has_marker (lower ''Nothing to see'') \<and>
   extract_emotional_cues (JStr ''Nothing to see'') = Inr zero_cues"
proof -
  have h1: "\<not> has_marker (lower [])" by code_simp
  have h2: "\<not> has_marker (lower ''Nothing to see'')" by code_simp
  show ?thesis
    using h1 h2 extract_emotional_cues_all_zero[of "[]"]
      extract_emotional_cues_all_zero[of "''Nothing to see''"]
    by simp
qed



section \<open>The base colour\<close>




section \<open>The shapes\<close>

lemma draw_iteration_type:
  "fst (fst (draw_iteration width height cues base_color src p)) =
     (if chaotic cues > 3 / 10 then Chaos
      else if focused cues > 3 / 10 then Focused
      else [Circle, Rectangle, Polygon] ! (src p mod 3))"
  by (simp add: draw_iteration_def choice_def Let_def split: prod.splits)

lemma basic_choice: "basic_shape ([Circle, Rectangle, Polygon] ! (n mod 3))"
proof -
  have "n mod 3 < 3" by simp
  then consider "n mod 3 = 0" | "n mod 3 = 1" | "n mod 3 = 2" by linarith
  then show ?thesis by cases (simp_all add: basic_shape_def)
qed

lemma draw_iteration_basic:
  "\<not> chaotic cues > 3 / 10 \<Longrightarrow> \<not> focused cues > 3 / 10 \<Longrightarrow>
     basic_shape (fst (fst (draw_iteration width height cues base_color src p)))"
  by (simp add: draw_iteration_type basic_choice)

lemma shapes_basic:
  "\<not> chaotic cues > 3 / 10 \<Longrightarrow> \<not> focused cues > 3 / 10 \<Longrightarrow>
     list_all (\<lambda>s. basic_shape (fst s))
       (fst (draw_emotional_shapes width height cues base_color src p))"
  unfolding draw_emotional_shapes_def Let_def
  by (rule for_range_all) (rule draw_iteration_basic)

lemma chaos_line_is_line: "is_line (fst (chaos_line x y color src p))"
  by (simp add: chaos_line_def case_prod_beta)

lemma draw_iteration_chaos:
  assumes "chaotic cues > 3 / 10"
  shows "fst (fst (draw_iteration width height cues base_color src p)) = Chaos
     \<and> length (snd (fst (draw_iteration width height cues base_color src p))) = 5
     \<and> list_all is_line (snd (fst (draw_iteration width height cues base_color src p)))"
  using assms
  by (simp add: draw_iteration_def draw_shape_def case_prod_beta Let_def for_range_length
      for_range_all chaos_line_is_line)



text \<open>
  C7. For every cue vector with \<open>chaotic > 0.3\<close> and every random source, every shape
  drawn is of the chaos type, a bundle of five lines, whatever \<open>focused\<close> is.
\<close>

theorem draw_emotional_shapes_chaos:
  "chaotic cues > 3 / 10 \<Longrightarrow>
     \<forall>s \<in> set (fst (draw_emotional_shapes width height cues base_color src p)).
       fst s = Chaos \<and> length (snd s) = 5 \<and> list_all is_line (snd s)"
proof -
  assume c: "chaotic cues > 3 / 10"
  have "list_all (\<lambda>s. fst s = Chaos \<and> length (snd s) = 5 \<and> list_all is_line (snd s))
      (fst (draw_emotional_shapes width height cues base_color src p))"
    unfolding draw_emotional_shapes_def Let_def
    by (rule for_range_all) (rule draw_iteration_chaos[OF c])
  then show ?thesis by (simp add: list_all_iff)
qed

theorem draw_emotional_shapes_chaos_witness:
  "chaotic chaos_cues > 3 / 10 \<and> focused chaos_cues > 3 / 10 \<and>
   length (fst (draw_emotional_shapes 400 400 chaos_cues (0, 0, 0) src0 0)) = 10 \<and>
   list_all (\<lambda>s. fst s = Chaos \<and> length (snd s) = 5 \<and> list_all is_line (snd s))
     (fst (draw_emotional_shapes 400 400 chaos_cues (0, 0, 0) src0 0))"
proof -
  have h: "chaotic chaos_cues > 3 / 10" by (simp add: chaos_cues_def)
  have f: "focused chaos_cues > 3 / 10" by (simp add: chaos_cues_def)
  have n: "length (fst (draw_emotional_shapes 400 400 chaos_cues (0, 0, 0) src0 0)) = 10"
    by (simp add: draw_emotional_shapes_def for_range_length py_int_def chaos_cues_def)
  show ?thesis
    using h f n draw_emotional_shapes_chaos[OF h, of 400 400 "(0, 0, 0)" src0 0]
    by (simp add: list_all_iff)
qed

text \<open>
  C3. On the example text the extractor counts 3 positive, 2 negative, 1 energetic and
  0 calm hits and returns the vector with positive 1/2, negative 1/3, energetic 1/6 and
  the rest 0; the base colour of that vector is (148, 102, 85); and for every random
  source exactly 16 shapes are drawn, each a circle, a rectangle or a polygon.
\<close>

theorem end_to_end_example:
  "count_terms positive_terms (lower example_text) 0 = 3 \<and>
   count_terms negative_terms (lower example_text) 0 = 2 \<and>
   count_terms energetic_terms (lower example_text) 0 = 1 \<and>
   count_terms calm_terms (lower example_text) 0 = 0 \<and>
   extract_emotional_cues (JStr example_text) = Inr example_cues \<and>
   calculate_base_color example_cues = (148, 102, 85) \<and>
   length (fst (draw_emotional_shapes width height example_cues (148, 102, 85) src p)) = 16 \<and>
   (\<forall>s \<in> set (fst (draw_emotional_shapes width height example_cues (148, 102, 85) src p)).
      basic_shape (fst s))"
proof -
  have c: "count_terms positive_terms (lower example_text) 0 = 3"
    "count_terms negative_terms (lower example_text) 0 = 2"
    "count_terms energetic_terms (lower example_text) 0 = 1"
    "count_terms calm_terms (lower example_text) 0 = 0"
    unfolding example_text_def by code_simp+
  have e: "extract_emotional_cues (JStr example_text) = Inr example_cues"
    unfolding example_text_def example_cues_def by code_simp
  have b: "calculate_base_color example_cues = (148, 102, 85)"
    unfolding example_cues_def by code_simp
  have "nat \<lfloor>10 + 40 * energetic example_cues\<rfloor> = 16"
    unfolding example_cues_def by code_simp
  then have n: "length (fst (draw_emotional_shapes width height example_cues (148, 102, 85) src p)) = 16"
    by (simp add: draw_emotional_shapes_def for_range_length nat_py_int)
  have "list_all (\<lambda>s. basic_shape (fst s))
      (fst (draw_emotional_shapes width height example_cues (148, 102, 85) src p))"
    by (rule shapes_basic) (simp_all add: example_cues_def)
  then have t: "\<forall>s \<in> set (fst (draw_emotional_shapes width height example_cues (148, 102, 85) src p)).
      basic_shape (fst s)"
    by (simp add: list_all_iff)
  show ?thesis using c e b n t by blast
qed

theorem end_to_end_example_witness:
  "length (fst (draw_emotional_shapes 400 400 example_cues (148, 102, 85) src0 0)) = 16 \<and>
   list_all (\<lambda>s. basic_shape (fst s))
     (fst (draw_emotional_shapes 400 400 example_cues (148, 102, 85) src0 0))"
  using end_to_end_example[of 400 400 src0 0] by (simp add: list_all_iff)

text \<open>
  C9. For every input text the vector the extractor returns has \<open>chaotic = 0\<close> and
  \<open>focused = 0\<close>; hence, for every random source, every shape drawn from it is a circle,
  a rectangle or a polygon, and the condition \<open>chaotic > 0.4\<close> of the blur does not hold.
\<close>

theorem extract_emotional_cues_no_chaotic_focused:
  "\<exists>c. extract_emotional_cues (JStr tx) = Inr c \<and> chaotic c = 0 \<and> focused c = 0 \<and>
     (\<forall>width height base_color src p.
        \<forall>s \<in> set (fst (draw_emotional_shapes width height c base_color src p)).
          basic_shape (fst s)) \<and>
     \<not> chaotic c > 4 / 10"
proof -
  obtain c where c: "extract_emotional_cues (JStr tx) = Inr c"
    using extract_total[of tx] by blast
  have z: "chaotic c = 0" "focused c = 0" using extract_chaotic_focused[OF c] by simp_all
  have "list_all (\<lambda>s. basic_shape (fst s))
      (fst (draw_emotional_shapes width height c base_color src p))"
    for width height base_color src p
    by (rule shapes_basic) (simp_all add: z)
  then show ?thesis using c z by (auto simp: list_all_iff)
qed

theorem extract_emotional_cues_no_chaotic_focused_witness:
  "extract_emotional_cues (JStr ''Chaotic but calm'') =
     Inr \<lparr>positive = 0, negative = 0, energetic = 0, calm = 1, chaotic = 0, focused = 0\<rparr> \<and>
   list_all (\<lambda>s. basic_shape (fst s))
     (fst (draw_emotional_shapes 400 400
        \<lparr>positive = 0, negative = 0, energetic = 0, calm = 1, chaotic = 0, focused = 0\<rparr>
        (0, 127, 255) src0 0))"
proof -
  have v: "extract_emotional_cues (JStr ''Chaotic but calm'') =
     Inr \<lparr>positive = 0, negative = 0, energetic = 0, calm = 1, chaotic = 0, focused = 0\<rparr>"
    by code_simp
  show ?thesis
    using v extract_emotional_cues_no_chaotic_focused[of "''Chaotic but calm''"]
    by (auto simp: list_all_iff)
qed

section \<open>The filters\<close>

lemma apply_emotional_filters_keeps:
  "r < length h \<Longrightarrow> apply_emotional_filters h r cues ! r = h ! r"
  by (simp add: apply_emotional_filters_def image_filter_def alloc_def nth_append Let_def)

text \<open>The blur is computed, on a copy that nothing refers to afterwards.\<close>

lemma apply_emotional_filters_blurs:
  "chaotic cues > 4 / 10 \<Longrightarrow> \<not> calm cues > 6 / 10 \<Longrightarrow>
     apply_emotional_filters [im] 0 cues = [im, im\<lparr>ops := ops im @ [Filtered (GaussianBlur 1)]\<rparr>]"
  by (simp add: apply_emotional_filters_def image_filter_def alloc_def Let_def)

lemma draw_shape_no_filter:
  "list_all (\<lambda>c. \<not> is_filtered c) (fst (draw_shape t x y sz color src p))"
proof (cases t)
  case Chaos
  have "list_all (\<lambda>c. \<not> is_filtered c) (fst (for_range 5 (chaos_line x y color src) p))"
    by (rule for_range_all) (simp add: chaos_line_def case_prod_beta)
  then show ?thesis using Chaos by (simp add: draw_shape_def)
qed (simp_all add: draw_shape_def)

lemma draw_emotional_shapes_no_filter:
  "list_all (\<lambda>s. list_all (\<lambda>c. \<not> is_filtered c) (snd s))
     (fst (draw_emotional_shapes width height cues base_color src p))"
  unfolding draw_emotional_shapes_def Let_def
  by (rule for_range_all) (simp add: draw_iteration_def case_prod_beta Let_def draw_shape_no_filter)

text \<open>
  C1. The claim is that with \<open>chaotic > 0.4\<close> the Gaussian blur is observable in the
  encoded image. What holds of the code is the opposite: for every cue vector, the image
  that is encoded is the canvas with the drawing calls only, no filter among them.
\<close>

theorem generate_abstract_visualization_unfiltered:
  "fst (generate_abstract_visualization png_base64 cues src p) =
     data_uri (png_base64 \<lparr>img_size = (400, 400), background = (0, 0, 0),
       ops = concat (map snd
               (fst (draw_emotional_shapes 400 400 cues (calculate_base_color cues) src p)))\<rparr>)
   \<and> \<not> list_ex is_filtered
       (concat (map snd
          (fst (draw_emotional_shapes 400 400 cues (calculate_base_color cues) src p))))"
proof -
  have "\<not> list_ex is_filtered
       (concat (map snd
          (fst (draw_emotional_shapes 400 400 cues (calculate_base_color cues) src p))))"
    using draw_emotional_shapes_no_filter[of 400 400 cues "calculate_base_color cues" src p]
    by (auto simp: list_all_iff list_ex_iff)
  moreover have "fst (generate_abstract_visualization png_base64 cues src p) =
     data_uri (png_base64 \<lparr>img_size = (400, 400), background = (0, 0, 0),
       ops = concat (map snd
               (fst (draw_emotional_shapes 400 400 cues (calculate_base_color cues) src p)))\<rparr>)"
    by (simp add: generate_abstract_visualization_def Let_def case_prod_beta image_new_def
        alloc_def image_draw_def apply_emotional_filters_keeps)
  ultimately show ?thesis by simp
qed

theorem generate_abstract_visualization_unfiltered_witness:
  "chaotic blur_cues > 4 / 10 \<and>
   fst (generate_abstract_visualization png0 blur_cues src0 0) = data_uri ''plain''"
proof -
  have "chaotic blur_cues > 4 / 10" by (simp add: blur_cues_def)
  moreover have "fst (generate_abstract_visualization png0 blur_cues src0 0) = data_uri ''plain''"
    using generate_abstract_visualization_unfiltered[of png0 blur_cues src0 0]
    by (simp add: png0_def)
  ultimately show ?thesis by simp
qed

section \<open>The route and the fallback\<close>





end
